theory Spec2Isabelle
  imports Complex_Main
begin

section \<open>Data model (types.ts)\<close>

text \<open>
  The interfaces of \<^verbatim>\<open>types.ts\<close> as records. Two interfaces share the field names
  \<^verbatim>\<open>id\<close> and \<^verbatim>\<open>duration\<close> (and \<^verbatim>\<open>id\<close>, \<^verbatim>\<open>name\<close>, \<^verbatim>\<open>type\<close> clash with constants of
  HOL or with each other), so those fields carry the interface as a prefix; every other field
  keeps its name. An optional field (\<^verbatim>\<open>storyboardUrl?: string\<close>) is an \<open>option\<close>.

  A JavaScript \<^verbatim>\<open>number\<close> is modelled by \<open>real\<close> where it is a time in seconds
  (the program only copies such numbers, compares them with 0 and adds two of them) and by
  \<open>int\<close> where it is a track id or a scene ordinal (the response schema declares
  \<^verbatim>\<open>scene_number\<close> an INTEGER). \<^verbatim>\<open>NaN\<close> only arises from \<^verbatim>\<open>parseFloat\<close> and is
  modelled there, as \<open>None\<close>.
\<close>

record Scene =
  scene_id :: string
  scene_number :: int
  slugline :: string
  description :: string
  storyboardUrl :: "string option"
  videoUrl :: "string option"
  scene_duration :: real

record Script =
  title :: string
  rawContent :: string
  scenes :: "Scene list"

datatype ClipType = ClipVideo | ClipAudio | ClipEffect | ClipTitle

record TimelineClip =
  clip_id :: string
  trackId :: int
  startTime :: real
  clip_duration :: real
  clip_name :: string
  clip_type :: ClipType
  color :: string
  sceneId :: "string option"

datatype TrackType = TrackVideo | TrackAudio

record Track =
  track_id :: int
  track_name :: string
  track_type :: TrackType
  clips :: "TimelineClip list"

datatype Tab = TabScript | TabStoryboard | TabTimeline

record VeoGenerationState =
  isGenerating :: bool
  progressMessage :: string

section \<open>Application state (the \<^verbatim>\<open>useState\<close> cells of \<^verbatim>\<open>App\<close>)\<close>

text \<open>
  Every \<^verbatim>\<open>useState\<close> cell of \<^verbatim>\<open>App\<close> is a field of the state record; a
  \<^verbatim>\<open>Record<string, T>\<close> is a map from scene ids. Each handler is a function from the
  state to the next state: React runs one handler at a time and re-renders before the next
  event, so the \<^verbatim>\<open>tracks\<close> a handler reads from its closure and the \<^verbatim>\<open>prev\<close> its
  updater receives are the same value.
\<close>

record App =
  activeTab :: Tab
  script :: Script
  tracks :: "Track list"
  isParsing :: bool
  generatingImages :: "string \<rightharpoonup> bool"
  veoState :: "string \<rightharpoonup> VeoGenerationState"
  hasPaidKey :: bool

definition nl :: string where
  "nl = [CHR 0x0A]"

definition INITIAL_SCRIPT :: string where
  "INITIAL_SCRIPT =
     ''INT. SPACESHIP COCKPIT - NIGHT'' @ nl @ nl @
     ''The cockpit is bathed in urgent red emergency lighting. Sparks shower from the ceiling.'' @ nl @ nl @
     ''COMMANDER ZARA (30s, intense) grips the control stick, knuckles white. The void of space swirls outside the viewport.'' @ nl @ nl @
     ''ZARA'' @ nl @
     ''Hold on! We'' @ [CHR 0x27] @ ''re making the jump!'' @ nl @ nl @
     ''EXT. SPACE - CONTINUOUS'' @ nl @ nl @
     ''The sleek silver vessel elongates, turning into a streak of starlight before vanishing into hyperspace.''"

definition initialTracks :: "Track list" where
  "initialTracks =
     [\<lparr>track_id = 1, track_name = ''Video 1'', track_type = TrackVideo, clips = []\<rparr>,
      \<lparr>track_id = 2, track_name = ''Video 2'', track_type = TrackVideo, clips = []\<rparr>,
      \<lparr>track_id = 3, track_name = ''Audio 1'', track_type = TrackAudio, clips = []\<rparr>]"

definition initialApp :: App where
  "initialApp =
     \<lparr>activeTab = TabScript,
      script = \<lparr>title = ''Untitled Project'', rawContent = INITIAL_SCRIPT, scenes = []\<rparr>,
      tracks = initialTracks,
      isParsing = False,
      generatingImages = Map.empty,
      veoState = Map.empty,
      hasPaidKey = False\<rparr>"

section \<open>What a handler does besides changing the state\<close>

text \<open>
  A handler also talks to the outside: it shows an \<^verbatim>\<open>alert\<close>, logs to the console, or
  submits a request to the generation service. These are returned as a list, in order.
  \<^verbatim>\<open>SubmitVideo\<close> carries the prompt and the two pieces cut out of the data URL, each
  \<open>None\<close> where JavaScript's indexing gives \<^verbatim>\<open>undefined\<close>.
\<close>

datatype effect =
    Alert string
  | ConsoleError string string
  | SubmitParse string
  | SubmitImage string
  | SubmitVideo string "string option" "string option"

text \<open>The outcome of an awaited call: it resolves with a value or throws.\<close>

datatype 'a awaited = Resolved 'a | Threw string

section \<open>Duration edits\<close>

text \<open>\<^verbatim>\<open>updateSceneDuration\<close>, lines 161-178: both updaters are maps.\<close>

definition updateSceneDuration :: "App \<Rightarrow> string \<Rightarrow> real \<Rightarrow> App" where
  "updateSceneDuration st sid newDuration =
     st\<lparr>script := (script st)\<lparr>scenes :=
            map (\<lambda>s. if scene_id s = sid then s\<lparr>scene_duration := newDuration\<rparr> else s)
              (scenes (script st))\<rparr>,
        tracks := map (\<lambda>track. track\<lparr>clips :=
            map (\<lambda>clip. if sceneId clip = Some sid then clip\<lparr>clip_duration := newDuration\<rparr>
                         else clip)
              (clips track)\<rparr>) (tracks st)\<rparr>"

text \<open>
  The \<^verbatim>\<open>onChange\<close> handler of the duration input, lines 434-439. Its argument is the
  result of \<^verbatim>\<open>parseFloat(e.target.value)\<close>, \<open>None\<close> for \<^verbatim>\<open>NaN\<close>. The guard is
  \<^verbatim>\<open>!isNaN(val) && val >= 0\<close>; when it fails the handler does nothing.
\<close>

definition durationInput_onChange :: "App \<Rightarrow> Scene \<Rightarrow> real option \<Rightarrow> App" where
  "durationInput_onChange st scene val =
     (case val of
        None \<Rightarrow> st
      | Some v \<Rightarrow> if v \<ge> 0 then updateSceneDuration st (scene_id scene) v else st)"

section \<open>Adding a scene to the timeline\<close>

text \<open>
  The template literal \<^verbatim>\<open>`Scene ${scene.number}`\<close> converts the ordinal to a string:
  its decimal digits, behind a minus sign when it is negative. The digits are collected from
  the last one backwards.
\<close>

definition digitChar :: "nat \<Rightarrow> char" where
  "digitChar k = char_of (k + 48)"

fun digitsOf :: "nat \<Rightarrow> string \<Rightarrow> string" where
  "digitsOf n acc =
     (if n < 10 then digitChar n # acc
      else digitsOf (n div 10) (digitChar (n mod 10) # acc))"

declare digitsOf.simps [simp del]

definition numberToString :: "int \<Rightarrow> string" where
  "numberToString k =
     (if k < 0 then CHR ''-'' # digitsOf (nat (- k)) [] else digitsOf (nat k) [])"

text \<open>
  \<^verbatim>\<open>addToTimeline\<close>, lines 274-302. \<^verbatim>\<open>generateId()\<close> is random: the id it returns
  is the argument \<open>newId\<close>. The clip is built with \<^verbatim>\<open>startTime: 0\<close> and the field is
  then overwritten with the end of the last clip of the first track whose id is 1
  (\<^verbatim>\<open>tracks.find\<close>), 0 when there is none or it is empty. The updater appends the clip to
  every track whose id is 1 and the tab switches to the timeline.
\<close>

definition addToTimeline :: "App \<Rightarrow> string \<Rightarrow> Scene \<Rightarrow> App" where
  "addToTimeline st newId scene =
     (let newClip = \<lparr>clip_id = newId, trackId = 1, startTime = 0,
                     clip_duration = scene_duration scene,
                     clip_name = ''Scene '' @ numberToString (scene_number scene),
                     clip_type = ClipVideo, color = ''#06b6d4'',
                     sceneId = Some (scene_id scene)\<rparr>;
          track1 = find (\<lambda>t. track_id t = 1) (tracks st);
          startTime' =
            (case track1 of
               None \<Rightarrow> 0
             | Some t1 \<Rightarrow>
                 if length (clips t1) > 0
                 then (let lastClip = clips t1 ! (length (clips t1) - 1)
                       in startTime lastClip + clip_duration lastClip)
                 else 0);
          newClip' = newClip\<lparr>startTime := startTime'\<rparr>
      in st\<lparr>tracks := map (\<lambda>t. if track_id t = 1 then t\<lparr>clips := clips t @ [newClip']\<rparr> else t)
                          (tracks st),
            activeTab := TabTimeline\<rparr>)"


section \<open>Parsing the script\<close>

text \<open>
  Strings are taken as ASCII; \<^verbatim>\<open>trim()\<close> then strips the six characters below, and
  \<^verbatim>\<open>!script.rawContent.trim()\<close> holds exactly when every character is one of them.
\<close>

definition isWhiteSpace :: "char \<Rightarrow> bool" where
  "isWhiteSpace c = (c = CHR 0x09 \<or> c = CHR 0x0A \<or> c = CHR 0x0B \<or> c = CHR 0x0C \<or>
                     c = CHR 0x0D \<or> c = CHR 0x20)"

definition trimIsEmpty :: "string \<Rightarrow> bool" where
  "trimIsEmpty s = list_all isWhiteSpace s"

text \<open>
  One element of the parsed response, with the four properties the response schema
  requires.
\<close>

record ParsedScene =
  p_scene_number :: int
  p_slugline :: string
  p_visual_description :: string
  p_estimated_duration :: real

definition parsePrompt :: "string \<Rightarrow> string" where
  "parsePrompt raw =
     ''Parse this movie script into a JSON list of scenes. For each scene, extract the slugline, a detailed visual description suitable for an image generator (no dialogue, just visuals), and an estimated duration in seconds. ''
     @ nl @ nl @ ''SCRIPT:'' @ nl @ raw"

text \<open>
  \<^verbatim>\<open>parseScript\<close>, lines 115-159, is an \<^verbatim>\<open>async\<close> function with one \<^verbatim>\<open>await\<close>. It is
  cut there. \<open>parseScript_begin\<close> is the part that runs at the click: the early return on a
  blank script, \<^verbatim>\<open>setIsParsing(true)\<close> and the request. \<open>parseScript_end\<close> is the rest.
  Its argument is the outcome of the \<^verbatim>\<open>try\<close> block up to \<^verbatim>\<open>newScenes\<close>: the elements of
  the parsed array, or the exception thrown by the request, by \<^verbatim>\<open>JSON.parse\<close> or inside
  \<^verbatim>\<open>parsed.map\<close>. \<open>gen i\<close> is the id that the \<open>i\<close>-th call of \<^verbatim>\<open>generateId()\<close> returns.
\<close>

definition parseScript_begin :: "App \<Rightarrow> App \<times> effect list" where
  "parseScript_begin st =
     (if trimIsEmpty (rawContent (script st)) then (st, [])
      else (st\<lparr>isParsing := True\<rparr>, [SubmitParse (parsePrompt (rawContent (script st)))]))"

definition newScenes :: "(nat \<Rightarrow> string) \<Rightarrow> ParsedScene list \<Rightarrow> Scene list" where
  "newScenes gen parsed =
     map (\<lambda>(i, s). \<lparr>scene_id = gen i, scene_number = p_scene_number s,
                     slugline = p_slugline s, description = p_visual_description s,
                     storyboardUrl = None, videoUrl = None,
                     scene_duration = p_estimated_duration s\<rparr>)
       (enumerate 0 parsed)"

definition parseScript_end ::
    "App \<Rightarrow> (nat \<Rightarrow> string) \<Rightarrow> ParsedScene list awaited \<Rightarrow> App \<times> effect list" where
  "parseScript_end st gen outcome =
     (case outcome of
        Resolved parsed \<Rightarrow>
          (st\<lparr>script := (script st)\<lparr>scenes := newScenes gen parsed\<rparr>,
              activeTab := TabStoryboard, isParsing := False\<rparr>, [])
      | Threw e \<Rightarrow>
          (st\<lparr>isParsing := False\<rparr>,
           [ConsoleError ''Failed to parse script'' e,
            Alert ''Failed to parse script. See console.'']))"

text \<open>The button is rendered with \<^verbatim>\<open>disabled={isParsing}\<close>: a click on it then does nothing.\<close>

definition parseButton_onClick :: "App \<Rightarrow> App \<times> effect list" where
  "parseButton_onClick st = (if isParsing st then (st, []) else parseScript_begin st)"

section \<open>Storyboard images\<close>

record InlineData =
  mimeType :: string
  data :: string

text \<open>
  The loop of lines 191-196 over the parts of the first candidate (\<^verbatim>\<open>[]\<close> when any link
  of the optional chain is missing): the data URL of the first part that has
  \<^verbatim>\<open>inlineData\<close>, the empty string when there is none.
\<close>

fun firstImageUrl :: "InlineData option list \<Rightarrow> string" where
  "firstImageUrl [] = ''''"
| "firstImageUrl (None # parts) = firstImageUrl parts"
| "firstImageUrl (Some d # parts) = ''data:'' @ mimeType d @ '';base64,'' @ data d"

text \<open>
  \<^verbatim>\<open>generateStoryboardImage\<close>, lines 180-209, cut at its \<^verbatim>\<open>await\<close>. The first part sets
  the flag and submits; nothing in it looks at the flag. The second part gets the parts of
  the response, or the exception (of the request, or of \<^verbatim>\<open>getAI()\<close> before it);
  \<^verbatim>\<open>finally\<close> clears the flag on both paths.
\<close>

definition generateStoryboardImage_begin :: "App \<Rightarrow> string \<Rightarrow> string \<Rightarrow> App \<times> effect list" where
  "generateStoryboardImage_begin st sid descr =
     (st\<lparr>generatingImages := (generatingImages st)(sid \<mapsto> True)\<rparr>,
      [SubmitImage (''Cinematic movie storyboard, wide angle, high quality, 4k. '' @ descr)])"

definition generateStoryboardImage_end ::
    "App \<Rightarrow> string \<Rightarrow> InlineData option list awaited \<Rightarrow> App \<times> effect list" where
  "generateStoryboardImage_end st sid outcome =
     (case outcome of
        Resolved parts \<Rightarrow>
          (let imageUrl = firstImageUrl parts;
               st1 = (if imageUrl \<noteq> '''' then
                        st\<lparr>script := (script st)\<lparr>scenes :=
                             map (\<lambda>s. if scene_id s = sid then s\<lparr>storyboardUrl := Some imageUrl\<rparr>
                                      else s) (scenes (script st))\<rparr>\<rparr>
                      else st)
           in (st1\<lparr>generatingImages := (generatingImages st1)(sid \<mapsto> False)\<rparr>, []))
      | Threw e \<Rightarrow>
          (st\<lparr>generatingImages := (generatingImages st)(sid \<mapsto> False)\<rparr>,
           [ConsoleError ''Image gen failed'' e]))"

text \<open>
  The button, lines 452-459: \<^verbatim>\<open>disabled={generatingImages[scene.id]}\<close>, so a click runs
  the handler only while the flag is unset or false.
\<close>

definition imageButton_disabled :: "App \<Rightarrow> Scene \<Rightarrow> bool" where
  "imageButton_disabled st scene = (generatingImages st (scene_id scene) = Some True)"

definition imageButton_onClick :: "App \<Rightarrow> Scene \<Rightarrow> App \<times> effect list" where
  "imageButton_onClick st scene =
     (if imageButton_disabled st scene then (st, [])
      else generateStoryboardImage_begin st (scene_id scene) (description scene))"

section \<open>Veo videos\<close>

text \<open>
  What \<^verbatim>\<open>window.aistudio\<close> answers during one call: it is missing; or it has no
  \<^verbatim>\<open>openSelectKey\<close> and \<^verbatim>\<open>hasSelectedApiKey()\<close> answers once; or the dialog opens and
  \<^verbatim>\<open>hasSelectedApiKey()\<close> answers twice, first inside \<^verbatim>\<open>handleSelectKey\<close>, then in
  \<^verbatim>\<open>generateVeoVideo\<close>.
\<close>

datatype aistudio = NoStudio | StudioNoDialog bool | StudioDialog bool bool

definition handleSelectKey :: "App \<Rightarrow> aistudio \<Rightarrow> App" where
  "handleSelectKey st env =
     (case env of StudioDialog hasKey _ \<Rightarrow> st\<lparr>hasPaidKey := hasKey\<rparr> | _ \<Rightarrow> st)"

text \<open>
  The answer to \<^verbatim>\<open>await window.aistudio.hasSelectedApiKey()\<close> on line 214; with no
  \<^verbatim>\<open>window.aistudio\<close> the call throws and the handler ends there, as it does on
  \<^verbatim>\<open>false\<close>.
\<close>

definition keySelected :: "aistudio \<Rightarrow> bool" where
  "keySelected env =
     (case env of NoStudio \<Rightarrow> False | StudioNoDialog b \<Rightarrow> b | StudioDialog _ b \<Rightarrow> b)"

text \<open>\<^verbatim>\<open>s.split(sep)\<close> for a separator of one character, and \<^verbatim>\<open>xs[i]\<close>.\<close>

fun split_on :: "char \<Rightarrow> string \<Rightarrow> string list" where
  "split_on sep [] = [[]]"
| "split_on sep (c # cs) =
     (if c = sep then [] # split_on sep cs
      else (case split_on sep cs of [] \<Rightarrow> [[c]] | p # ps \<Rightarrow> (c # p) # ps))"

definition index :: "'a list \<Rightarrow> nat \<Rightarrow> 'a option" where
  "index xs i = (if i < length xs then Some (xs ! i) else None)"

definition base64Data :: "string \<Rightarrow> string option" where
  "base64Data url = index (split_on CHR '','' url) 1"

definition mimeTypeOf :: "string \<Rightarrow> string option" where
  "mimeTypeOf url =
     (case index (split_on CHR '';'' url) 0 of
        None \<Rightarrow> None
      | Some h \<Rightarrow> index (split_on CHR '':'' h) 1)"

text \<open>
  \<^verbatim>\<open>generateVeoVideo\<close>, lines 211-272. \<open>generateVeoVideo_begin\<close> runs from the click to
  the submission of the video request: the key check of lines 212-215 (its awaits on the
  key dialog are taken in one step), the check of the storyboard image with its
  \<^verbatim>\<open>alert\<close> (\<^verbatim>\<open>!scene.storyboardUrl\<close> holds for \<^verbatim>\<open>undefined\<close> and for the empty
  string), \<^verbatim>\<open>setVeoState\<close> and the request. \<open>generateVeoVideo_submitted\<close> is line 246,
  after the submission resolved. \<open>generateVeoVideo_end\<close> is the end of the \<^verbatim>\<open>try\<close>
  block: the polling loop and the download have produced an object URL
  (\<open>Resolved (Some url)\<close>), the finished operation carried no video (\<open>Resolved None\<close>), or
  the submission, a poll or the download threw.
\<close>

definition missingImageAlert :: effect where
  "missingImageAlert = Alert ''Please generate a storyboard image first to use as a reference.''"

definition generateVeoVideo_begin :: "App \<Rightarrow> Scene \<Rightarrow> aistudio \<Rightarrow> App \<times> effect list" where
  "generateVeoVideo_begin st scene env =
     (let st1 = (if \<not> hasPaidKey st then handleSelectKey st env else st)
      in if \<not> hasPaidKey st \<and> \<not> keySelected env then (st1, [])
         else (case storyboardUrl scene of
                 None \<Rightarrow> (st1, [missingImageAlert])
               | Some url \<Rightarrow>
                   if url = '''' then (st1, [missingImageAlert])
                   else
                     (st1\<lparr>veoState := (veoState st1)(scene_id scene \<mapsto>
                             \<lparr>isGenerating = True, progressMessage = ''Initializing Veo...''\<rparr>)\<rparr>,
                      [SubmitVideo (''Cinematic shot, photorealistic, 4k. '' @ description scene)
                         (base64Data url) (mimeTypeOf url)])))"

definition generateVeoVideo_submitted :: "App \<Rightarrow> string \<Rightarrow> App" where
  "generateVeoVideo_submitted st sid =
     st\<lparr>veoState := (veoState st)(sid \<mapsto>
          \<lparr>isGenerating = True, progressMessage = ''Generating video...''\<rparr>)\<rparr>"

definition generateVeoVideo_end ::
    "App \<Rightarrow> string \<Rightarrow> string option awaited \<Rightarrow> App \<times> effect list" where
  "generateVeoVideo_end st sid outcome =
     (let idle = \<lparr>isGenerating = False, progressMessage = ''''\<rparr>
      in case outcome of
        Resolved None \<Rightarrow> (st\<lparr>veoState := (veoState st)(sid \<mapsto> idle)\<rparr>, [])
      | Resolved (Some url) \<Rightarrow>
          (st\<lparr>script := (script st)\<lparr>scenes :=
                  map (\<lambda>s. if scene_id s = sid then s\<lparr>videoUrl := Some url\<rparr> else s)
                    (scenes (script st))\<rparr>,
              veoState := (veoState st)(sid \<mapsto> idle)\<rparr>, [])
      | Threw e \<Rightarrow>
          (st\<lparr>veoState := (veoState st)(sid \<mapsto> idle)\<rparr>,
           [ConsoleError ''Veo generation failed'' e,
            Alert ''Video generation failed. Ensure you are using a paid billing project.'']))"

text \<open>The button, lines 461-468: \<^verbatim>\<open>disabled={veoState[scene.id]?.isGenerating}\<close>.\<close>

definition videoButton_disabled :: "App \<Rightarrow> Scene \<Rightarrow> bool" where
  "videoButton_disabled st scene =
     (case veoState st (scene_id scene) of None \<Rightarrow> False | Some v \<Rightarrow> isGenerating v)"

definition videoButton_onClick :: "App \<Rightarrow> Scene \<Rightarrow> aistudio \<Rightarrow> App \<times> effect list" where
  "videoButton_onClick st scene env =
     (if videoButton_disabled st scene then (st, []) else generateVeoVideo_begin st scene env)"

section \<open>The application as a transition system\<close>

text \<open>
  The events that reach the handlers: the user's clicks and edits, and the completions of
  awaited calls. A view only exists while its tab is active, so its events are handled only
  then; a card of the storyboard is addressed by the position of its scene in
  \<^verbatim>\<open>script.scenes\<close>. Besides the state of \<^verbatim>\<open>App\<close> the system keeps what the JavaScript
  runtime keeps: the calls that are being awaited. \<open>running\<close> lists the generation jobs
  whose request has been submitted and whose handler has not finished, \<open>parsing\<close> counts the
  parse requests in flight.
\<close>

datatype JobKind = ImageJob | VideoJob

record Sys =
  app :: App
  running :: "(string \<times> JobKind) list"
  parsing :: nat

datatype event =
    EditScript string
  | ClickTab Tab
  | ClickParse
  | ParseDone "nat \<Rightarrow> string" "ParsedScene list awaited"
  | EditDuration nat "real option"
  | ClickImage nat
  | ImageDone string "InlineData option list awaited"
  | ClickVideo nat aistudio
  | VideoSubmitted string
  | VideoDone string "string option awaited"
  | ClickAdd nat string
  | ClickSelectKey aistudio
  | KeyChecked bool

definition initialSys :: Sys where
  "initialSys = \<lparr>app = initialApp, running = [], parsing = 0\<rparr>"

text \<open>The jobs that a list of effects starts for a scene, and the parse requests in it.\<close>

fun startedJobs :: "string \<Rightarrow> effect list \<Rightarrow> (string \<times> JobKind) list" where
  "startedJobs sid [] = []"
| "startedJobs sid (SubmitImage p # es) = (sid, ImageJob) # startedJobs sid es"
| "startedJobs sid (SubmitVideo p b m # es) = (sid, VideoJob) # startedJobs sid es"
| "startedJobs sid (e # es) = startedJobs sid es"

fun startedParses :: "effect list \<Rightarrow> nat" where
  "startedParses [] = 0"
| "startedParses (SubmitParse p # es) = Suc (startedParses es)"
| "startedParses (e # es) = startedParses es"

text \<open>The scene of the card at a position, when the storyboard is shown.\<close>

definition card :: "Sys \<Rightarrow> nat \<Rightarrow> Scene option" where
  "card s i =
     (if activeTab (app s) = TabStoryboard then index (scenes (script (app s))) i else None)"

fun step :: "Sys \<Rightarrow> event \<Rightarrow> Sys" where
  "step s (EditScript text) =
     (if activeTab (app s) = TabScript
      then s\<lparr>app := (app s)\<lparr>script := (script (app s))\<lparr>rawContent := text\<rparr>\<rparr>\<rparr>
      else s)"
| "step s (ClickTab tab) = s\<lparr>app := (app s)\<lparr>activeTab := tab\<rparr>\<rparr>"
| "step s ClickParse =
     (if activeTab (app s) = TabScript
      then (case parseButton_onClick (app s) of
              (a, effs) \<Rightarrow> s\<lparr>app := a, parsing := parsing s + startedParses effs\<rparr>)
      else s)"
| "step s (ParseDone gen outcome) =
     (if parsing s > 0
      then s\<lparr>app := fst (parseScript_end (app s) gen outcome), parsing := parsing s - 1\<rparr>
      else s)"
| "step s (EditDuration i val) =
     (case card s i of
        None \<Rightarrow> s
      | Some scene \<Rightarrow> s\<lparr>app := durationInput_onChange (app s) scene val\<rparr>)"
| "step s (ClickImage i) =
     (case card s i of
        None \<Rightarrow> s
      | Some scene \<Rightarrow>
          (case imageButton_onClick (app s) scene of
             (a, effs) \<Rightarrow> s\<lparr>app := a, running := running s @ startedJobs (scene_id scene) effs\<rparr>))"
| "step s (ImageDone sid outcome) =
     (if (sid, ImageJob) \<in> set (running s)
      then s\<lparr>app := fst (generateStoryboardImage_end (app s) sid outcome),
             running := remove1 (sid, ImageJob) (running s)\<rparr>
      else s)"
| "step s (ClickVideo i env) =
     (case card s i of
        None \<Rightarrow> s
      | Some scene \<Rightarrow>
          (case videoButton_onClick (app s) scene env of
             (a, effs) \<Rightarrow> s\<lparr>app := a, running := running s @ startedJobs (scene_id scene) effs\<rparr>))"
| "step s (VideoSubmitted sid) =
     (if (sid, VideoJob) \<in> set (running s)
      then s\<lparr>app := generateVeoVideo_submitted (app s) sid\<rparr>
      else s)"
| "step s (VideoDone sid outcome) =
     (if (sid, VideoJob) \<in> set (running s)
      then s\<lparr>app := fst (generateVeoVideo_end (app s) sid outcome),
             running := remove1 (sid, VideoJob) (running s)\<rparr>
      else s)"
| "step s (ClickAdd i newId) =
     (case card s i of
        None \<Rightarrow> s
      | Some scene \<Rightarrow> s\<lparr>app := addToTimeline (app s) newId scene\<rparr>)"
| "step s (ClickSelectKey env) =
     (if hasPaidKey (app s) then s else s\<lparr>app := handleSelectKey (app s) env\<rparr>)"
| "step s (KeyChecked hasKey) = s\<lparr>app := (app s)\<lparr>hasPaidKey := hasKey\<rparr>\<rparr>"

fun run :: "Sys \<Rightarrow> event list \<Rightarrow> Sys" where
  "run s [] = s"
| "run s (e # es) = run (step s e) es"




section \<open>Notions used to state the properties\<close>

text \<open>
  The end of a track: the start of its last clip plus that clip's duration, 0 for a track
  without clips (lines 288-292 compute it for the track they found).
\<close>

definition trackEnd :: "Track \<Rightarrow> real" where
  "trackEnd t =
     (if clips t = [] then 0
      else startTime (last (clips t)) + clip_duration (last (clips t)))"

text \<open>
  The clip that \<^verbatim>\<open>addToTimeline\<close> has built when it calls \<^verbatim>\<open>setTracks\<close>; lemma
  \<open>addToTimeline_eq\<close> below shows that this is the clip it appends.
\<close>

definition placedClip :: "App \<Rightarrow> string \<Rightarrow> Scene \<Rightarrow> TimelineClip" where
  "placedClip st newId scene =
     \<lparr>clip_id = newId, trackId = 1,
      startTime = (case find (\<lambda>t. track_id t = 1) (tracks st) of
                     None \<Rightarrow> 0 | Some t1 \<Rightarrow> trackEnd t1),
      clip_duration = scene_duration scene,
      clip_name = ''Scene '' @ numberToString (scene_number scene),
      clip_type = ClipVideo, color = ''#06b6d4'', sceneId = Some (scene_id scene)\<rparr>"


text \<open>The clips of the track with a given id, read as line 287 reads track 1.\<close>

definition trackClips :: "App \<Rightarrow> int \<Rightarrow> TimelineClip list" where
  "trackClips st k =
     (case find (\<lambda>t. track_id t = k) (tracks st) of None \<Rightarrow> [] | Some t \<Rightarrow> clips t)"



subsection \<open>Example values\<close>

definition sceneA :: Scene where
  "sceneA =
     \<lparr>scene_id = ''scene-a'', scene_number = 1, slugline = ''INT. SPACESHIP COCKPIT - NIGHT'',
      description = ''A cockpit bathed in red emergency lighting'',
      storyboardUrl = None, videoUrl = None, scene_duration = 10\<rparr>"

definition sceneB :: Scene where
  "sceneB =
     \<lparr>scene_id = ''scene-b'', scene_number = 2, slugline = ''EXT. SPACE - CONTINUOUS'',
      description = ''A silver vessel stretching into a streak of starlight'',
      storyboardUrl = Some ''data:image/png;base64,iVBORw0KGgo='', videoUrl = None,
      scene_duration = 5\<rparr>"

definition clipA :: TimelineClip where
  "clipA =
     \<lparr>clip_id = ''clip-a'', trackId = 1, startTime = 0, clip_duration = 10,
      clip_name = ''Scene 1'', clip_type = ClipVideo, color = ''#06b6d4'',
      sceneId = Some ''scene-a''\<rparr>"

text \<open>
  The storyboard shows two scenes, the first of them is on track 1, and a paid key has
  been selected.
\<close>

definition exampleApp :: App where
  "exampleApp =
     \<lparr>activeTab = TabStoryboard,
      script = \<lparr>title = ''Untitled Project'', rawContent = INITIAL_SCRIPT,
                scenes = [sceneA, sceneB]\<rparr>,
      tracks =
        [\<lparr>track_id = 1, track_name = ''Video 1'', track_type = TrackVideo, clips = [clipA]\<rparr>,
         \<lparr>track_id = 2, track_name = ''Video 2'', track_type = TrackVideo, clips = []\<rparr>,
         \<lparr>track_id = 3, track_name = ''Audio 1'', track_type = TrackAudio, clips = []\<rparr>],
      isParsing = False,
      generatingImages = Map.empty,
      veoState = Map.empty,
      hasPaidKey = True\<rparr>"

text \<open>The same, while an image job for the first scene and a video job for the second run.\<close>

definition busyApp :: App where
  "busyApp =
     exampleApp\<lparr>generatingImages := [''scene-a'' \<mapsto> True],
                veoState := [''scene-b'' \<mapsto>
                  \<lparr>isGenerating = True, progressMessage = ''Generating video...''\<rparr>]\<rparr>"



text \<open>Three parsed scenes of 4, 6 and 5 seconds, and the scenes made of them.\<close>

definition parsed465 :: "ParsedScene list" where
  "parsed465 =
     [\<lparr>p_scene_number = 1, p_slugline = ''INT. COCKPIT - NIGHT'',
       p_visual_description = ''Red emergency lighting'', p_estimated_duration = 4\<rparr>,
      \<lparr>p_scene_number = 2, p_slugline = ''INT. COCKPIT - CONTINUOUS'',
       p_visual_description = ''Hands on the control stick'', p_estimated_duration = 6\<rparr>,
      \<lparr>p_scene_number = 3, p_slugline = ''EXT. SPACE - CONTINUOUS'',
       p_visual_description = ''A streak of starlight'', p_estimated_duration = 5\<rparr>]"

definition exampleIds :: "nat \<Rightarrow> string" where
  "exampleIds i = ''scene-'' @ digitsOf i []"


section \<open>Duration propagation\<close>

lemma tracks_updateSceneDuration:
  "tracks (updateSceneDuration st sid d) =
     map (\<lambda>track. track\<lparr>clips :=
            map (\<lambda>clip. if sceneId clip = Some sid then clip\<lparr>clip_duration := d\<rparr> else clip)
              (clips track)\<rparr>) (tracks st)"
  by (simp add: updateSceneDuration_def)

lemma scenes_updateSceneDuration:
  "scenes (script (updateSceneDuration st sid d)) =
     map (\<lambda>s. if scene_id s = sid then s\<lparr>scene_duration := d\<rparr> else s) (scenes (script st))"
  by (simp add: updateSceneDuration_def)

lemma linked_clip_duration:
  assumes "t \<in> set (tracks (updateSceneDuration st sid d))"
    and "c \<in> set (clips t)" and "sceneId c = Some sid"
  shows "clip_duration c = d"
proof -
  let ?f = "\<lambda>clip. if sceneId clip = Some sid then clip\<lparr>clip_duration := d\<rparr> else clip"
  from assms(1) have "t \<in> (\<lambda>track. track\<lparr>clips := map ?f (clips track)\<rparr>) ` set (tracks st)"
    by (simp add: tracks_updateSceneDuration)
  then obtain t0 where "t = t0\<lparr>clips := map ?f (clips t0)\<rparr>" by (rule imageE)
  with assms(2) have "c \<in> ?f ` set (clips t0)" by simp
  then obtain c0 where c: "c = ?f c0" by (rule imageE)
  show ?thesis
  proof (cases "sceneId c0 = Some sid")
    case True
    with c show ?thesis by simp
  next
    case False
    with c assms(3) show ?thesis by simp
  qed
qed

lemma edited_scene_duration:
  assumes "s \<in> set (scenes (script (updateSceneDuration st sid d)))" and "scene_id s = sid"
  shows "scene_duration s = d"
proof -
  let ?f = "\<lambda>s. if scene_id s = sid then s\<lparr>scene_duration := d\<rparr> else s"
  from assms(1) have "s \<in> ?f ` set (scenes (script st))"
    by (simp add: scenes_updateSceneDuration)
  then obtain s0 where s: "s = ?f s0" by (rule imageE)
  show ?thesis
  proof (cases "scene_id s0 = sid")
    case True
    with s show ?thesis by simp
  next
    case False
    with s assms(2) show ?thesis by simp
  qed
qed

lemma startTimes_updateSceneDuration:
  "map (map startTime \<circ> clips) (tracks (updateSceneDuration st sid d)) =
     map (map startTime \<circ> clips) (tracks st)"
  by (simp add: tracks_updateSceneDuration comp_def cong: map_cong)

lemma links_updateSceneDuration:
  "map (map sceneId \<circ> clips) (tracks (updateSceneDuration st sid d)) =
     map (map sceneId \<circ> clips) (tracks st)"
  by (simp add: tracks_updateSceneDuration comp_def cong: map_cong)

lemma scene_ids_updateSceneDuration:
  "map scene_id (scenes (script (updateSceneDuration st sid d))) =
     map scene_id (scenes (script st))"
  by (simp add: scenes_updateSceneDuration)

text \<open>
  Claim C1. Editing the duration of the scene \<open>sid\<close> to \<open>d\<close> with
  \<^verbatim>\<open>updateSceneDuration\<close> gives every clip on every track whose \<^verbatim>\<open>sceneId\<close> is \<open>sid\<close> the
  duration \<open>d\<close>, and leaves the start times of all clips of all tracks as they were, track
  by track and clip by clip; the links of the clips and the ids of the scenes do not change
  either, so the clips linked to \<open>sid\<close> are the ones that were linked before. Every scene
  with the id \<open>sid\<close> has the duration \<open>d\<close> afterwards, hence
  \<^verbatim>\<open>clip.duration == scene.duration\<close> for every clip linked to that scene. This holds
  for every \<open>d\<close>, in particular for every positive one.
\<close>

theorem updateSceneDuration_propagates:
  "let st' = updateSceneDuration st sid d in
     (\<forall>t \<in> set (tracks st'). \<forall>c \<in> set (clips t). sceneId c = Some sid \<longrightarrow> clip_duration c = d)
   \<and> map (map startTime \<circ> clips) (tracks st') = map (map startTime \<circ> clips) (tracks st)
   \<and> map (map sceneId \<circ> clips) (tracks st') = map (map sceneId \<circ> clips) (tracks st)
   \<and> map scene_id (scenes (script st')) = map scene_id (scenes (script st))
   \<and> (\<forall>s \<in> set (scenes (script st')). scene_id s = sid \<longrightarrow> scene_duration s = d)
   \<and> (\<forall>t \<in> set (tracks st'). \<forall>c \<in> set (clips t). \<forall>s \<in> set (scenes (script st')).
          sceneId c = Some sid \<and> scene_id s = sid \<longrightarrow> clip_duration c = scene_duration s)"
proof -
  let ?st' = "updateSceneDuration st sid d"
  have clip: "\<forall>t \<in> set (tracks ?st'). \<forall>c \<in> set (clips t). sceneId c = Some sid \<longrightarrow> clip_duration c = d"
    by (intro ballI impI) (rule linked_clip_duration)
  have scene: "\<forall>s \<in> set (scenes (script ?st')). scene_id s = sid \<longrightarrow> scene_duration s = d"
    by (intro ballI impI) (rule edited_scene_duration)
  have both: "\<forall>t \<in> set (tracks ?st'). \<forall>c \<in> set (clips t). \<forall>s \<in> set (scenes (script ?st')).
                sceneId c = Some sid \<and> scene_id s = sid \<longrightarrow> clip_duration c = scene_duration s"
  proof (intro ballI impI)
    fix t c s
    assume "t \<in> set (tracks ?st')" "c \<in> set (clips t)" "s \<in> set (scenes (script ?st'))"
      and "sceneId c = Some sid \<and> scene_id s = sid"
    then have "clip_duration c = d" "scene_duration s = d"
      using linked_clip_duration edited_scene_duration by blast+
    then show "clip_duration c = scene_duration s" by simp
  qed
  show ?thesis
    unfolding Let_def
    by (intro conjI clip scene both startTimes_updateSceneDuration links_updateSceneDuration
          scene_ids_updateSceneDuration)
qed

text \<open>
  On the example: the clip of the first scene lies on track 1 with duration 10; editing the
  scene to 8 seconds gives the clip 8 seconds and leaves it at start time 0.
\<close>

theorem updateSceneDuration_propagates_witness:
  "sceneId (hd (clips (hd (tracks (updateSceneDuration exampleApp ''scene-a'' 8))))) = Some ''scene-a''
   \<and> clip_duration (hd (clips (hd (tracks exampleApp)))) = 10
   \<and> clip_duration (hd (clips (hd (tracks (updateSceneDuration exampleApp ''scene-a'' 8))))) = 8
   \<and> map (map startTime \<circ> clips) (tracks (updateSceneDuration exampleApp ''scene-a'' 8)) = [[0], [], []]
   \<and> scene_duration (hd (scenes (script (updateSceneDuration exampleApp ''scene-a'' 8)))) = 8"
proof -
  let ?st' = "updateSceneDuration exampleApp ''scene-a'' 8"
  note inst = updateSceneDuration_propagates [of exampleApp "''scene-a''" 8, unfolded Let_def]
  have tr: "tracks ?st' \<noteq> []" and cl: "clips (hd (tracks ?st')) \<noteq> []"
    and sc: "scenes (script ?st') \<noteq> []"
    by (simp_all add: updateSceneDuration_def exampleApp_def)
  have link: "sceneId (hd (clips (hd (tracks ?st')))) = Some ''scene-a''"
    by (simp add: updateSceneDuration_def exampleApp_def clipA_def)
  have sid: "scene_id (hd (scenes (script ?st'))) = ''scene-a''"
    by (simp add: updateSceneDuration_def exampleApp_def sceneA_def)
  have before: "clip_duration (hd (clips (hd (tracks exampleApp)))) = 10"
    "map (map startTime \<circ> clips) (tracks exampleApp) = [[0], [], []]"
    by (simp_all add: exampleApp_def clipA_def)
  have dur: "clip_duration (hd (clips (hd (tracks ?st')))) = 8"
    using inst [THEN conjunct1, rule_format, OF hd_in_set [OF tr] hd_in_set [OF cl] link] .
  have starts: "map (map startTime \<circ> clips) (tracks ?st') = [[0], [], []]"
    using inst [THEN conjunct2, THEN conjunct1] before(2) by (rule trans)
  have sdur: "scene_duration (hd (scenes (script ?st'))) = 8"
    using inst [THEN conjunct2, THEN conjunct2, THEN conjunct2, THEN conjunct2, THEN conjunct1,
      rule_format, OF hd_in_set [OF sc] sid] .
  from link before(1) dur starts sdur show ?thesis by (intro conjI)
qed

section \<open>Placement on the timeline\<close>

lemma addToTimeline_eq:
  "addToTimeline st newId scene =
     st\<lparr>tracks := map (\<lambda>t. if track_id t = 1
                             then t\<lparr>clips := clips t @ [placedClip st newId scene]\<rparr> else t)
                    (tracks st),
        activeTab := TabTimeline\<rparr>"
  by (simp add: addToTimeline_def placedClip_def trackEnd_def Let_def last_conv_nth
        split: option.splits)



lemma length_tracks_addToTimeline:
  "length (tracks (addToTimeline st newId scene)) = length (tracks st)"
  by (simp add: addToTimeline_eq)

lemma nth_tracks_addToTimeline:
  "i < length (tracks st) \<Longrightarrow>
   tracks (addToTimeline st newId scene) ! i =
     (if track_id (tracks st ! i) = 1
      then (tracks st ! i)\<lparr>clips := clips (tracks st ! i) @ [placedClip st newId scene]\<rparr>
      else tracks st ! i)"
  by (simp add: addToTimeline_eq)










text \<open>
  Claim C9. Let \<open>i\<close> be a position of a track with id 1. Right after
  \<^verbatim>\<open>addToTimeline(scene)\<close> the clip appended there carries the id of \<open>scene\<close> as its
  \<^verbatim>\<open>sceneId\<close> and the duration of \<open>scene\<close> as its duration. The call does not touch the
  script, so the scene of the card that was clicked is in \<^verbatim>\<open>script.scenes\<close> with that
  same duration: \<^verbatim>\<open>clip.duration == scene.duration\<close> holds when the clip is created.
\<close>

theorem addToTimeline_clip_mirrors_scene:
  assumes "i < length (tracks st)" and "track_id (tracks st ! i) = 1"
  shows "(\<exists>c. clips (tracks (addToTimeline st newId scene) ! i) = clips (tracks st ! i) @ [c]
            \<and> sceneId c = Some (scene_id scene)
            \<and> clip_duration c = scene_duration scene)
       \<and> script (addToTimeline st newId scene) = script st"
proof -
  have "clips (tracks (addToTimeline st newId scene) ! i) =
          clips (tracks st ! i) @ [placedClip st newId scene]
        \<and> sceneId (placedClip st newId scene) = Some (scene_id scene)
        \<and> clip_duration (placedClip st newId scene) = scene_duration scene"
    using assms by (simp add: nth_tracks_addToTimeline placedClip_def)
  then have "\<exists>c. clips (tracks (addToTimeline st newId scene) ! i) = clips (tracks st ! i) @ [c]
            \<and> sceneId c = Some (scene_id scene)
            \<and> clip_duration c = scene_duration scene"
    by (rule exI)
  moreover have "script (addToTimeline st newId scene) = script st"
    by (simp add: addToTimeline_eq)
  ultimately show ?thesis by (rule conjI)
qed

text \<open>
  On the example, the second scene lasts 5 seconds; its clip is the last one of track 1,
  links to \<^verbatim>\<open>scene-b\<close> and lasts 5 seconds.
\<close>

theorem addToTimeline_clip_mirrors_scene_witness:
  "sceneB \<in> set (scenes (script (addToTimeline exampleApp ''clip-b'' sceneB)))
   \<and> scene_duration sceneB = 5
   \<and> sceneId (last (clips (tracks (addToTimeline exampleApp ''clip-b'' sceneB) ! 0)))
       = Some ''scene-b''
   \<and> clip_duration (last (clips (tracks (addToTimeline exampleApp ''clip-b'' sceneB) ! 0))) = 5"
proof -
  have hyps: "0 < length (tracks exampleApp)" "track_id (tracks exampleApp ! 0) = 1"
    by (simp_all add: exampleApp_def)
  note inst = addToTimeline_clip_mirrors_scene [OF hyps, of "''clip-b''" sceneB]
  have sb: "scene_id sceneB = ''scene-b''" "scene_duration sceneB = 5"
    by (simp_all add: sceneB_def)
  have "sceneB \<in> set (scenes (script exampleApp))"
    by (simp add: exampleApp_def)
  then have mem: "sceneB \<in> set (scenes (script (addToTimeline exampleApp ''clip-b'' sceneB)))"
    by (simp only: inst [THEN conjunct2])
  from inst [THEN conjunct1] obtain c where
    c: "clips (tracks (addToTimeline exampleApp ''clip-b'' sceneB) ! 0)
          = clips (tracks exampleApp ! 0) @ [c]"
      "sceneId c = Some (scene_id sceneB)" "clip_duration c = scene_duration sceneB"
    by blast
  from c sb have "sceneId (last (clips (tracks (addToTimeline exampleApp ''clip-b'' sceneB) ! 0)))
       = Some ''scene-b''"
    "clip_duration (last (clips (tracks (addToTimeline exampleApp ''clip-b'' sceneB) ! 0))) = 5"
    by simp_all
  with mem sb(2) show ?thesis by (intro conjI)
qed

text \<open>
  Claim C10. \<^verbatim>\<open>addToTimeline\<close> keeps the number and the order of the tracks. At every
  position, a track whose id is 1 comes out the same but for its clip list, which is the old
  list followed by one new clip: the clips that were there keep their order and are
  unchanged, start time and duration included. A track with another id comes out unchanged.
  Nothing else of the state changes but the active tab, which becomes the timeline.
\<close>

theorem addToTimeline_changes_only_track_1:
  "length (tracks (addToTimeline st newId scene)) = length (tracks st)
   \<and> (\<forall>i < length (tracks st).
        (track_id (tracks st ! i) = 1 \<longrightarrow>
           (\<exists>c. tracks (addToTimeline st newId scene) ! i
                  = (tracks st ! i)\<lparr>clips := clips (tracks st ! i) @ [c]\<rparr>))
      \<and> (track_id (tracks st ! i) \<noteq> 1 \<longrightarrow>
           tracks (addToTimeline st newId scene) ! i = tracks st ! i))
   \<and> addToTimeline st newId scene
       = st\<lparr>tracks := tracks (addToTimeline st newId scene), activeTab := TabTimeline\<rparr>"
proof (intro conjI allI impI)
  show "length (tracks (addToTimeline st newId scene)) = length (tracks st)"
    by (rule length_tracks_addToTimeline)
next
  fix i
  assume "i < length (tracks st)" and "track_id (tracks st ! i) = 1"
  then have "tracks (addToTimeline st newId scene) ! i
      = (tracks st ! i)\<lparr>clips := clips (tracks st ! i) @ [placedClip st newId scene]\<rparr>"
    by (simp add: nth_tracks_addToTimeline)
  then show "\<exists>c. tracks (addToTimeline st newId scene) ! i
      = (tracks st ! i)\<lparr>clips := clips (tracks st ! i) @ [c]\<rparr>"
    by (rule exI)
next
  fix i
  assume "i < length (tracks st)" and "track_id (tracks st ! i) \<noteq> 1"
  then show "tracks (addToTimeline st newId scene) ! i = tracks st ! i"
    by (simp add: nth_tracks_addToTimeline)
next
  show "addToTimeline st newId scene
       = st\<lparr>tracks := tracks (addToTimeline st newId scene), activeTab := TabTimeline\<rparr>"
    by (simp add: addToTimeline_eq)
qed

text \<open>
  On the example: track 1 gets a second clip behind the one it had, tracks 2 and 3 stay
  as they were.
\<close>

theorem addToTimeline_changes_only_track_1_witness:
  "map track_id (tracks exampleApp) = [1, 2, 3]
   \<and> length (tracks (addToTimeline exampleApp ''clip-b'' sceneB)) = 3
   \<and> butlast (clips (tracks (addToTimeline exampleApp ''clip-b'' sceneB) ! 0)) = [clipA]
   \<and> length (clips (tracks (addToTimeline exampleApp ''clip-b'' sceneB) ! 0)) = 2
   \<and> tracks (addToTimeline exampleApp ''clip-b'' sceneB) ! 1 = tracks exampleApp ! 1
   \<and> tracks (addToTimeline exampleApp ''clip-b'' sceneB) ! 2 = tracks exampleApp ! 2"
proof -
  let ?st' = "addToTimeline exampleApp ''clip-b'' sceneB"
  note inst = addToTimeline_changes_only_track_1 [of exampleApp "''clip-b''" sceneB]
  have ex: "map track_id (tracks exampleApp) = [1, 2, 3]" "length (tracks exampleApp) = 3"
    "track_id (tracks exampleApp ! 0) = 1" "track_id (tracks exampleApp ! 1) \<noteq> 1"
    "track_id (tracks exampleApp ! 2) \<noteq> 1" "clips (tracks exampleApp ! 0) = [clipA]"
    by (simp_all add: exampleApp_def)
  have len: "length (tracks ?st') = 3"
    using inst [THEN conjunct1] ex(2) by (rule trans)
  note at = inst [THEN conjunct2, THEN conjunct1, rule_format]
  have i0: "(0::nat) < length (tracks exampleApp)" and i1: "1 < length (tracks exampleApp)"
    and i2: "2 < length (tracks exampleApp)"
    by (simp_all add: ex(2))
  from at [OF i0, THEN conjunct1, rule_format, OF ex(3)] obtain c where
    "tracks ?st' ! 0 = (tracks exampleApp ! 0)\<lparr>clips := clips (tracks exampleApp ! 0) @ [c]\<rparr>"
    by blast
  then have t0: "clips (tracks ?st' ! 0) = [clipA, c]"
    by (simp add: ex(6))
  have t1: "tracks ?st' ! 1 = tracks exampleApp ! 1"
    by (rule at [OF i1, THEN conjunct2, rule_format, OF ex(4)])
  have t2: "tracks ?st' ! 2 = tracks exampleApp ! 2"
    by (rule at [OF i2, THEN conjunct2, rule_format, OF ex(5)])
  from t0 have "butlast (clips (tracks ?st' ! 0)) = [clipA]" "length (clips (tracks ?st' ! 0)) = 2"
    by simp_all
  with ex(1) len t1 t2 show ?thesis by (intro conjI)
qed

section \<open>The track list of the running application\<close>














section \<open>A failed parse\<close>


section \<open>A failed image job\<close>

text \<open>
  Claim C7 says that a failed image job leaves the scene's artifact as it was and that the
  job's status records an error detail that stays inspectable. The second half does not
  hold: the \<^verbatim>\<open>catch\<close> block only writes to the console, and \<^verbatim>\<open>finally\<close> sets the flag
  of the scene to \<^verbatim>\<open>false\<close>. The state after a failure does not depend on the error, and
  it is the state after a call that returned without an image.
\<close>

theorem image_failure_keeps_no_detail_counterexample:
  "fst (generateStoryboardImage_end busyApp ''scene-a'' (Threw ''transport error''))
     = fst (generateStoryboardImage_end busyApp ''scene-a'' (Threw ''quota exceeded''))
   \<and> fst (generateStoryboardImage_end busyApp ''scene-a'' (Threw ''transport error''))
     = fst (generateStoryboardImage_end busyApp ''scene-a'' (Resolved []))
   \<and> generatingImages (fst (generateStoryboardImage_end busyApp ''scene-a''
         (Threw ''transport error''))) ''scene-a'' = Some False"
  by (simp add: generateStoryboardImage_end_def)

text \<open>
  Claim C7, amended. When an image job fails, the script is left as it was, so every
  scene keeps its \<^verbatim>\<open>storyboardUrl\<close>, set or not, and nothing is overwritten in part; the
  tracks are left as they were. The only change of the state is that the flag of the scene
  becomes \<^verbatim>\<open>false\<close>. The error goes to the console and is not kept in the state, so the
  state is the same for every error. A call that returns without an image leaves the script
  alone as well.
\<close>

theorem image_failure_leaves_scene:
  "fst (generateStoryboardImage_end st sid (Threw e))
     = st\<lparr>generatingImages := (generatingImages st)(sid \<mapsto> False)\<rparr>
   \<and> script (fst (generateStoryboardImage_end st sid (Threw e))) = script st
   \<and> map storyboardUrl (scenes (script (fst (generateStoryboardImage_end st sid (Threw e)))))
       = map storyboardUrl (scenes (script st))
   \<and> tracks (fst (generateStoryboardImage_end st sid (Threw e))) = tracks st
   \<and> snd (generateStoryboardImage_end st sid (Threw e)) = [ConsoleError ''Image gen failed'' e]
   \<and> fst (generateStoryboardImage_end st sid (Threw e))
       = fst (generateStoryboardImage_end st sid (Threw e'))
   \<and> script (fst (generateStoryboardImage_end st sid (Resolved []))) = script st"
  by (simp add: generateStoryboardImage_end_def)

section \<open>A timeline without track 1\<close>




section \<open>Requesting a video\<close>








section \<open>Validation of a duration edit\<close>

text \<open>
  Claim C4 says that setting a duration of 0 or less fails with \<^verbatim>\<open>InvalidArgument\<close> and
  leaves the duration as it was, so that durations stay positive. Nothing in the program
  raises such an error. \<^verbatim>\<open>updateSceneDuration\<close> validates nothing and writes -5 when it
  is called with -5; the input handler, which is its only caller, lets 0 through, and the
  scene and its clip then last 0 seconds.
\<close>

theorem duration_validation_counterexample:
  "map scene_duration (scenes (script exampleApp)) = [10, 5]
   \<and> map scene_duration (scenes (script (updateSceneDuration exampleApp ''scene-a'' (- 5))))
       = [- 5, 5]
   \<and> map scene_duration (scenes (script (durationInput_onChange exampleApp sceneA (Some 0))))
       = [0, 5]
   \<and> map clip_duration (trackClips (durationInput_onChange exampleApp sceneA (Some 0)) 1) = [0]"
  by (simp add: durationInput_onChange_def updateSceneDuration_def trackClips_def exampleApp_def
        sceneA_def sceneB_def clipA_def)

lemma positive_updateSceneDuration:
  assumes "\<forall>s \<in> set (scenes (script st)). 0 < scene_duration s" and "0 < d"
  shows "\<forall>s \<in> set (scenes (script (updateSceneDuration st sid d))). 0 < scene_duration s"
proof
  fix s
  let ?f = "\<lambda>s. if scene_id s = sid then s\<lparr>scene_duration := d\<rparr> else s"
  assume "s \<in> set (scenes (script (updateSceneDuration st sid d)))"
  then have "s \<in> ?f ` set (scenes (script st))"
    by (simp add: scenes_updateSceneDuration)
  then obtain s0 where s0: "s0 \<in> set (scenes (script st))" "s = ?f s0" by (rule imageE)
  show "0 < scene_duration s"
  proof (cases "scene_id s0 = sid")
    case True
    with s0 assms(2) show ?thesis by simp
  next
    case False
    with s0 assms(1) show ?thesis by simp
  qed
qed

text \<open>
  Claim C4, amended. The duration is validated by the handler of the duration input, not
  by \<^verbatim>\<open>updateSceneDuration\<close>, and without an error: for every negative value, and for
  a value that is not a number, the handler ignores the edit and the whole state, the
  scene's duration included, stays as it was. For every positive value the handler runs
  \<^verbatim>\<open>updateSceneDuration\<close> and the scene has that duration afterwards. So an edit with a
  value other than 0 keeps all scene durations positive when they were positive before.
\<close>

theorem durationInput_validates_silently:
  "(v < 0 \<longrightarrow> durationInput_onChange st scene (Some v) = st)
   \<and> durationInput_onChange st scene None = st
   \<and> (0 < v \<longrightarrow>
        durationInput_onChange st scene (Some v) = updateSceneDuration st (scene_id scene) v
      \<and> (\<forall>s \<in> set (scenes (script (durationInput_onChange st scene (Some v)))).
            scene_id s = scene_id scene \<longrightarrow> scene_duration s = v))
   \<and> ((\<forall>s \<in> set (scenes (script st)). 0 < scene_duration s) \<and> v \<noteq> 0 \<longrightarrow>
        (\<forall>s \<in> set (scenes (script (durationInput_onChange st scene (Some v)))).
            0 < scene_duration s))"
proof (intro conjI impI)
  show "durationInput_onChange st scene None = st"
    by (simp add: durationInput_onChange_def)
next
  assume "v < 0"
  then show "durationInput_onChange st scene (Some v) = st"
    by (simp add: durationInput_onChange_def)
next
  assume "0 < v"
  then show eq: "durationInput_onChange st scene (Some v)
      = updateSceneDuration st (scene_id scene) v"
    by (simp add: durationInput_onChange_def)
  show "\<forall>s \<in> set (scenes (script (durationInput_onChange st scene (Some v)))).
            scene_id s = scene_id scene \<longrightarrow> scene_duration s = v"
    unfolding eq by (intro ballI impI) (rule edited_scene_duration)
next
  assume a: "(\<forall>s \<in> set (scenes (script st)). 0 < scene_duration s) \<and> v \<noteq> 0"
  show "\<forall>s \<in> set (scenes (script (durationInput_onChange st scene (Some v)))).
            0 < scene_duration s"
  proof (cases "0 < v")
    case True
    then have "durationInput_onChange st scene (Some v)
        = updateSceneDuration st (scene_id scene) v"
      by (simp add: durationInput_onChange_def)
    with positive_updateSceneDuration [OF a [THEN conjunct1] True] show ?thesis by simp
  next
    case False
    with a have "v < 0" by simp
    then have "durationInput_onChange st scene (Some v) = st"
      by (simp add: durationInput_onChange_def)
    with a show ?thesis by simp
  qed
qed

text \<open>
  On the example: -5 is ignored, 8 is written to the first scene, and the durations are
  positive after both edits.
\<close>

theorem durationInput_validates_silently_witness:
  "durationInput_onChange exampleApp sceneA (Some (- 5)) = exampleApp
   \<and> scene_duration (hd (scenes (script (durationInput_onChange exampleApp sceneA (Some 8))))) = 8
   \<and> 0 < scene_duration (hd (scenes (script (durationInput_onChange exampleApp sceneA (Some 8)))))
   \<and> 0 < scene_duration (hd (scenes (script (durationInput_onChange exampleApp sceneA (Some (- 5))))))"
proof -
  let ?st8 = "durationInput_onChange exampleApp sceneA (Some 8)"
  let ?stm = "durationInput_onChange exampleApp sceneA (Some (- 5))"
  note neg = durationInput_validates_silently [of "- 5" exampleApp sceneA]
  note pos = durationInput_validates_silently [of 8 exampleApp sceneA]
  have m: "?stm = exampleApp"
    using neg [THEN conjunct1] by simp
  have upd: "?st8 = updateSceneDuration exampleApp (scene_id sceneA) 8"
    using pos [THEN conjunct2, THEN conjunct2, THEN conjunct1] by simp
  have ne8: "scenes (script ?st8) \<noteq> []" and id8: "scene_id (hd (scenes (script ?st8))) = scene_id sceneA"
    unfolding upd by (simp_all add: updateSceneDuration_def exampleApp_def sceneA_def)
  have d8: "scene_duration (hd (scenes (script ?st8))) = 8"
    using pos [THEN conjunct2, THEN conjunct2, THEN conjunct1] hd_in_set [OF ne8] id8 by simp
  have posEx: "\<forall>s \<in> set (scenes (script exampleApp)). 0 < scene_duration s"
    by (simp add: exampleApp_def sceneA_def sceneB_def)
  have nem: "scenes (script ?stm) \<noteq> []"
    unfolding m by (simp add: exampleApp_def)
  have p8: "0 < scene_duration (hd (scenes (script ?st8)))"
    using pos [THEN conjunct2, THEN conjunct2, THEN conjunct2] posEx hd_in_set [OF ne8] by simp
  have pm: "0 < scene_duration (hd (scenes (script ?stm)))"
    using neg [THEN conjunct2, THEN conjunct2, THEN conjunct2] posEx hd_in_set [OF nem] by simp
  from m d8 p8 pm show ?thesis by (intro conjI)
qed

section \<open>One job per scene and kind\<close>



















section \<open>Scenario A, from the first click\<close>

text \<open>
  The script is parsed into three scenes of 4, 6 and 5 seconds; each is added to the
  timeline from its card, the user returning to the storyboard in between. Track 1 then
  holds three clips that start at 0, 4 and 10 and last 4, 6 and 5 seconds.
\<close>

lemma scenario_A_events:
  "map (\<lambda>c. (startTime c, clip_duration c))
     (trackClips (app (run initialSys
        [ClickParse, ParseDone exampleIds (Resolved parsed465),
         ClickAdd 0 ''clip-1'', ClickTab TabStoryboard,
         ClickAdd 1 ''clip-2'', ClickTab TabStoryboard,
         ClickAdd 2 ''clip-3''])) 1)
   = [(0, 4), (4, 6), (10, 5)]"
  by (simp add: initialSys_def initialApp_def initialTracks_def parseButton_onClick_def
        parseScript_begin_def parseScript_end_def trimIsEmpty_def isWhiteSpace_def
        INITIAL_SCRIPT_def nl_def card_def index_def newScenes_def parsed465_def
        addToTimeline_def trackClips_def Let_def)

end
